theory Spec2Isabelle
  imports Main
begin

section \<open>Squares, pieces and moves\<close>

text \<open>
  The type \<open>Square\<close> of ChessGame.tsx is the template literal type of a file letter
  followed by a rank digit. A square is modelled as the pair of the two; \<open>to[1]\<close> in
  the source is the rank component.
\<close>

datatype fileLetter = Fa | Fb | Fc | Fd | Fe | Ff | Fg | Fh

datatype rankDigit = R1 | R2 | R3 | R4 | R5 | R6 | R7 | R8

type_synonym square = "fileLetter \<times> rankDigit"

text \<open>The colours \<open>"w"\<close>, \<open>"b"\<close> and the piece symbols \<open>"p"\<close> ... \<open>"k"\<close> of chess.js.\<close>

datatype color = WHITE | BLACK

datatype piece_symbol = PAWN | KNIGHT | BISHOP | ROOK | QUEEN | KING

record piece =
  color :: color
  ptype :: piece_symbol

text \<open>A verbose move object as the engine returns it (the fields the program can read).\<close>

record move =
  move_color :: color
  move_from :: square
  move_to :: square
  move_piece :: piece_symbol
  move_promotion :: "piece_symbol option"
  san :: string

text \<open>The argument object of \<open>g.move({ from, to, promotion })\<close>; a plain move has no promotion.\<close>

record move_req =
  req_from :: square
  req_to :: square
  req_promotion :: "piece_symbol option"

section \<open>The rules engine as a collaborator\<close>

text \<open>
  The chess.js engine is not part of the repository. It is taken as a parameter: a record
  of the methods the program calls, over an arbitrary type \<open>'g\<close> of engine states. The
  two mutating methods return their result together with the engine state they leave
  behind; a falsy result is \<open>None\<close>, which is how the program tests for a rejected
  move (\<open>if (!move)\<close>) and for an empty undo (\<open>if (!undone)\<close>). Nothing is assumed
  about what the engine does to its state, also when it rejects. The other methods only
  read the engine state.

  \<open>move\<close> has a third outcome: it can throw. The engine whose method names the program
  uses (\<open>isCheckmate\<close>, \<open>isGameOver\<close>, ...) throws an \<open>Error\<close> on an illegal move
  where earlier engines returned \<open>null\<close>, so the result of \<open>move\<close> is either a thrown
  error (\<open>Inl\<close>) or a returned value (\<open>Inr\<close>), falsy or the applied move.
\<close>

text \<open>A thrown \<open>Error\<close>, with its message.\<close>

datatype error = Error string

record 'g chess =
  newChess :: "'g"
  chess_fen :: "'g \<Rightarrow> string"
  chess_pgn :: "'g \<Rightarrow> string"
  chess_history :: "'g \<Rightarrow> move list"
  chess_turn :: "'g \<Rightarrow> color"
  chess_get :: "'g \<Rightarrow> square \<Rightarrow> piece option"
  chess_moves :: "'g \<Rightarrow> square \<Rightarrow> move list"
  chess_move :: "'g \<Rightarrow> move_req \<Rightarrow> (error + move option) \<times> 'g"
  chess_undo :: "'g \<Rightarrow> move option \<times> 'g"
  isCheckmate :: "'g \<Rightarrow> bool"
  isStalemate :: "'g \<Rightarrow> bool"
  isThreefoldRepetition :: "'g \<Rightarrow> bool"
  isInsufficientMaterial :: "'g \<Rightarrow> bool"
  isDraw :: "'g \<Rightarrow> bool"
  isCheck :: "'g \<Rightarrow> bool"
  isGameOver :: "'g \<Rightarrow> bool"

section \<open>lib/chess.ts\<close>

text \<open>The em dash of the status messages, as its three UTF-8 bytes.\<close>

definition emDash :: string where
  "emDash = [CHR 0xE2, CHR 0x80, CHR 0x94]"

definition computeStatus :: "'g chess \<Rightarrow> 'g \<Rightarrow> string" where
  "computeStatus E game =
     (if isCheckmate E game then
        ''Checkmate '' @ emDash @ '' '' @ (if chess_turn E game = WHITE then ''Black'' else ''White'') @ '' wins''
      else if isStalemate E game then ''Stalemate''
      else if isThreefoldRepetition E game then ''Draw '' @ emDash @ '' threefold repetition''
      else if isInsufficientMaterial E game then ''Draw '' @ emDash @ '' insufficient material''
      else if isDraw E game then ''Draw''
      else if isCheck E game then
        (if chess_turn E game = WHITE then ''White'' else ''Black'') @ '' to move '' @ emDash @ '' CHECK''
      else (if chess_turn E game = WHITE then ''White'' else ''Black'') @ '' to move'')"

text \<open>A display row \<open>{ white, black }\<close>; \<open>null\<close> is \<open>None\<close>.\<close>

record 'a pair =
  white :: "'a option"
  black :: "'a option"

text \<open>\<open>moves[i] ?? null\<close>: an index past the end reads \<open>undefined\<close>, which becomes \<open>null\<close>.\<close>

definition at_or_null :: "'a list \<Rightarrow> nat \<Rightarrow> 'a option" where
  "at_or_null xs i = (if i < length xs then Some (xs ! i) else None)"

text \<open>The \<open>for\<close> loop of \<open>historyPairs\<close>, with its counter and the array built so far.\<close>

function historyPairs_loop :: "'a list \<Rightarrow> nat \<Rightarrow> 'a pair list \<Rightarrow> 'a pair list" where
  "historyPairs_loop moves i pairs =
     (if i < length moves
      then historyPairs_loop moves (i + 2)
             (pairs @ [\<lparr>white = at_or_null moves i, black = at_or_null moves (i + 1)\<rparr>])
      else pairs)"
  by pat_completeness auto
termination
  by (relation "measure (\<lambda>(moves, i, pairs). length moves - i)") auto

definition historyPairs :: "'a list \<Rightarrow> 'a pair list" where
  "historyPairs moves = historyPairs_loop moves 0 []"

section \<open>components/Toolbar.tsx\<close>

text \<open>The events the page can deliver to the \<open>ChessGame\<close> component.\<close>

datatype event =
  SquareClick square
  | PieceDrop square square
  | PieceDragBegin square
  | NewGame
  | Undo
  | CopyPGN

text \<open>
  The props of \<open>Toolbar\<close>. The three callbacks are the events they stand for in
  \<open>ChessGame\<close>.
\<close>

record toolbar_props =
  onNewGame_prop :: event
  onUndo_prop :: event
  onCopyPGN_prop :: event
  canUndo :: bool
  isGameOver_prop :: bool

text \<open>A rendered \<open>button\<close>: its text, its click handler and its \<open>disabled\<close> attribute
  (absent is enabled).\<close>

record button =
  label :: string
  onClick :: event
  disabled :: bool

definition Toolbar :: "toolbar_props \<Rightarrow> button list" where
  "Toolbar props =
     [\<lparr>label = ''New game'', onClick = onNewGame_prop props, disabled = False\<rparr>,
      \<lparr>label = ''Undo'', onClick = onUndo_prop props, disabled = (\<not> canUndo props)\<rparr>,
      \<lparr>label = ''Copy PGN'', onClick = onCopyPGN_prop props, disabled = (\<not> canUndo props)\<rparr>]"

section \<open>components/ChessGame.tsx\<close>

definition isPromotionMove :: "'g chess \<Rightarrow> 'g \<Rightarrow> square \<Rightarrow> square \<Rightarrow> bool" where
  "isPromotionMove E game from to =
     (case chess_get E game from of
        None \<Rightarrow> False
      | Some piece \<Rightarrow>
          if ptype piece \<noteq> PAWN then False
          else (let targetRank = snd to
                in (color piece = WHITE \<and> targetRank = R8) \<or> (color piece = BLACK \<and> targetRank = R1)))"

text \<open>
  The component's state: the engine instance held by \<open>gameRef\<close> and the seven
  \<open>useState\<close> cells. Every setter is called with a value, and every handler reads the
  cells before it writes any, so a handler is a function from the state before to the
  state after.
\<close>

record 'g ChessGame =
  gameRef :: "'g"
  fen :: string
  pgn :: string
  moves :: "move list"
  status :: string
  selected :: "square option"
  legalTargets :: "square list"
  lastMove :: "(square \<times> square) option"

text \<open>The state at the first render.\<close>

definition initialState :: "'g chess \<Rightarrow> 'g ChessGame" where
  "initialState E =
     \<lparr>gameRef = newChess E, fen = chess_fen E (newChess E), pgn = [], moves = [],
      status = ''White to move'', selected = None, legalTargets = [], lastMove = None\<rparr>"

definition syncFromGame :: "'g chess \<Rightarrow> 'g \<Rightarrow> 'g ChessGame \<Rightarrow> 'g ChessGame" where
  "syncFromGame E g s =
     s\<lparr>fen := chess_fen E g, pgn := chess_pgn E g, moves := chess_history E g,
       status := computeStatus E g\<rparr>"

definition clearSelection :: "'g ChessGame \<Rightarrow> 'g ChessGame" where
  "clearSelection s = s\<lparr>selected := None, legalTargets := []\<rparr>"

definition selectSquare :: "'g chess \<Rightarrow> 'g ChessGame \<Rightarrow> square \<Rightarrow> 'g ChessGame" where
  "selectSquare E s square =
     (let g = gameRef s in
      case chess_get E g square of
        None \<Rightarrow> clearSelection s
      | Some piece \<Rightarrow>
          if color piece \<noteq> chess_turn E g then clearSelection s
          else (let targets = map move_to (chess_moves E g square)
                in s\<lparr>selected := Some square, legalTargets := targets\<rparr>))"

text \<open>The engine call of \<open>tryMove\<close>: with the queen as promotion piece, or plain.\<close>

definition tryMove_move ::
  "'g chess \<Rightarrow> 'g \<Rightarrow> square \<Rightarrow> square \<Rightarrow> (error + move option) \<times> 'g" where
  "tryMove_move E g from to =
     (if isPromotionMove E g from to
      then chess_move E g \<lparr>req_from = from, req_to = to, req_promotion = Some QUEEN\<rparr>
      else chess_move E g \<lparr>req_from = from, req_to = to, req_promotion = None\<rparr>)"

text \<open>
  \<open>tryMove\<close> ends by returning its boolean (\<open>Inr\<close>) or, having no \<open>try\<close> around the
  engine call, by throwing what the engine threw (\<open>Inl\<close>), before any setter is
  reached. Either way it leaves a state; the engine object is mutated in place by the
  call, whatever the outcome.
\<close>

definition tryMove ::
  "'g chess \<Rightarrow> 'g ChessGame \<Rightarrow> square \<Rightarrow> square \<Rightarrow> (error + bool) \<times> 'g ChessGame" where
  "tryMove E s from to =
     (case tryMove_move E (gameRef s) from to of
        (Inl e, g) \<Rightarrow> (Inl e, s\<lparr>gameRef := g\<rparr>)
      | (Inr None, g) \<Rightarrow> (Inr False, s\<lparr>gameRef := g\<rparr>)
      | (Inr (Some m), g) \<Rightarrow>
          (Inr True,
           syncFromGame E g (clearSelection (s\<lparr>gameRef := g, lastMove := Some (from, to)\<rparr>))))"

definition onPieceDrop ::
  "'g chess \<Rightarrow> 'g ChessGame \<Rightarrow> square \<Rightarrow> square \<Rightarrow> (error + bool) \<times> 'g ChessGame" where
  "onPieceDrop E s sourceSquare targetSquare = tryMove E s sourceSquare targetSquare"

text \<open>An error thrown by \<open>tryMove\<close> ends \<open>onSquareClick\<close> too: \<open>selectSquare\<close> is not
  reached.\<close>

definition onSquareClick ::
  "'g chess \<Rightarrow> 'g ChessGame \<Rightarrow> square \<Rightarrow> (error + unit) \<times> 'g ChessGame" where
  "onSquareClick E s square =
     (case selected s of
        Some sel \<Rightarrow>
          (case tryMove E s sel square of
             (Inl e, s') \<Rightarrow> (Inl e, s')
           | (Inr ok, s') \<Rightarrow> if \<not> ok then (Inr (), selectSquare E s' square) else (Inr (), s'))
      | None \<Rightarrow> (Inr (), selectSquare E s square))"

definition onPieceDragBegin :: "'g chess \<Rightarrow> 'g ChessGame \<Rightarrow> square \<Rightarrow> 'g ChessGame" where
  "onPieceDragBegin E s sourceSquare = selectSquare E s sourceSquare"

definition onNewGame :: "'g chess \<Rightarrow> 'g ChessGame \<Rightarrow> 'g ChessGame" where
  "onNewGame E s =
     syncFromGame E (newChess E) (clearSelection (s\<lparr>gameRef := newChess E, lastMove := None\<rparr>))"

definition onUndo :: "'g chess \<Rightarrow> 'g ChessGame \<Rightarrow> 'g ChessGame" where
  "onUndo E s =
     (case chess_undo E (gameRef s) of
        (None, g) \<Rightarrow> s\<lparr>gameRef := g\<rparr>
      | (Some undone, g) \<Rightarrow> syncFromGame E g (clearSelection (s\<lparr>gameRef := g, lastMove := None\<rparr>)))"

text \<open>
  The clipboard is the second collaborator: \<open>writeText\<close> settles as fulfilled or as
  rejected. \<open>onCopyPGN\<close> awaits it and has no statement after the \<open>await\<close> and no
  handler around it, so its own promise settles the same way, and the state is the one
  it was called in.
\<close>

datatype promise = Fulfilled | Rejected

definition onCopyPGN :: "(string \<Rightarrow> promise) \<Rightarrow> 'g ChessGame \<Rightarrow> promise \<times> 'g ChessGame" where
  "onCopyPGN writeText s = (writeText (pgn s), s)"

text \<open>The props \<open>ChessGame\<close> passes to \<open>Toolbar\<close>, and the toolbar it renders.\<close>

definition toolbarProps :: "'g chess \<Rightarrow> 'g ChessGame \<Rightarrow> toolbar_props" where
  "toolbarProps E s =
     \<lparr>onNewGame_prop = NewGame, onUndo_prop = Undo, onCopyPGN_prop = CopyPGN,
      canUndo = (length (moves s) > 0), isGameOver_prop = isGameOver E (gameRef s)\<rparr>"

definition renderToolbar :: "'g chess \<Rightarrow> 'g ChessGame \<Rightarrow> button list" where
  "renderToolbar E s = Toolbar (toolbarProps E s)"

text \<open>
  One event: the board widget and the buttons call the handlers and drop what they return
  (the board reads the boolean of \<open>onPieceDrop\<close> only to snap the piece back). An error
  thrown by a handler leaves the component mounted, in the state the handler left.
\<close>

fun handle :: "'g chess \<Rightarrow> (string \<Rightarrow> promise) \<Rightarrow> 'g ChessGame \<Rightarrow> event \<Rightarrow> 'g ChessGame" where
  "handle E writeText s (SquareClick square) = snd (onSquareClick E s square)"
| "handle E writeText s (PieceDrop sourceSquare targetSquare) = snd (onPieceDrop E s sourceSquare targetSquare)"
| "handle E writeText s (PieceDragBegin sourceSquare) = onPieceDragBegin E s sourceSquare"
| "handle E writeText s NewGame = onNewGame E s"
| "handle E writeText s Undo = onUndo E s"
| "handle E writeText s CopyPGN = snd (onCopyPGN writeText s)"

text \<open>The state after a sequence of events, from the first render.\<close>

definition run :: "'g chess \<Rightarrow> (string \<Rightarrow> promise) \<Rightarrow> event list \<Rightarrow> 'g ChessGame" where
  "run E writeText evs = foldl (handle E writeText) (initialState E) evs"

section \<open>What the program relies on in the engine\<close>

text \<open>
  The move list the program shows is the engine's. That it is empty in a new game, grows
  by one entry with an applied move, and stays as it is when the engine rejects a move
  (by a falsy result or by throwing) or reports that nothing was undone, is the engine's
  part; it is named here and appears as a hypothesis wherever it is used.
\<close>

definition engine_contract :: "'g chess \<Rightarrow> bool" where
  "engine_contract E \<longleftrightarrow>
     chess_history E (newChess E) = [] \<and>
     (\<forall>g req. case chess_move E g req of
        (Inl e, g') \<Rightarrow> chess_history E g' = chess_history E g
      | (Inr None, g') \<Rightarrow> chess_history E g' = chess_history E g
      | (Inr (Some m), g') \<Rightarrow> length (chess_history E g') = length (chess_history E g) + 1) \<and>
     (\<forall>g. case chess_undo E g of
        (None, g') \<Rightarrow> chess_history E g' = chess_history E g
      | (Some m, g') \<Rightarrow> True)"

text \<open>The displayed move list is the engine's move list.\<close>

definition synced :: "'g chess \<Rightarrow> 'g ChessGame \<Rightarrow> bool" where
  "synced E s \<longleftrightarrow> moves s = chess_history E (gameRef s)"

text \<open>Legal targets are shown only with a selection.\<close>

definition targets_need_selection :: "'g ChessGame \<Rightarrow> bool" where
  "targets_need_selection s \<longleftrightarrow> (selected s = None \<longrightarrow> legalTargets s = [])"

section \<open>A small engine to run the program on\<close>

text \<open>
  A concrete collaborator for the examples: a game of pawns. A pawn of the side to move
  steps one square ahead onto an empty square; on the last rank it must name a promotion
  piece. The engine keeps the placement, the side to move and the moves played.
\<close>

record pawns_game =
  placement :: "(square \<times> piece) list"
  side :: color
  played :: "move list"

fun ahead :: "color \<Rightarrow> rankDigit \<Rightarrow> rankDigit option" where
  "ahead WHITE R1 = Some R2"
| "ahead WHITE R2 = Some R3"
| "ahead WHITE R3 = Some R4"
| "ahead WHITE R4 = Some R5"
| "ahead WHITE R5 = Some R6"
| "ahead WHITE R6 = Some R7"
| "ahead WHITE R7 = Some R8"
| "ahead WHITE R8 = None"
| "ahead BLACK R8 = Some R7"
| "ahead BLACK R7 = Some R6"
| "ahead BLACK R6 = Some R5"
| "ahead BLACK R5 = Some R4"
| "ahead BLACK R4 = Some R3"
| "ahead BLACK R3 = Some R2"
| "ahead BLACK R2 = Some R1"
| "ahead BLACK R1 = None"

fun fileChar :: "fileLetter \<Rightarrow> char" where
  "fileChar Fa = CHR ''a''" | "fileChar Fb = CHR ''b''" | "fileChar Fc = CHR ''c''"
| "fileChar Fd = CHR ''d''" | "fileChar Fe = CHR ''e''" | "fileChar Ff = CHR ''f''"
| "fileChar Fg = CHR ''g''" | "fileChar Fh = CHR ''h''"

fun rankChar :: "rankDigit \<Rightarrow> char" where
  "rankChar R1 = CHR ''1''" | "rankChar R2 = CHR ''2''" | "rankChar R3 = CHR ''3''"
| "rankChar R4 = CHR ''4''" | "rankChar R5 = CHR ''5''" | "rankChar R6 = CHR ''6''"
| "rankChar R7 = CHR ''7''" | "rankChar R8 = CHR ''8''"

fun symbolChar :: "piece_symbol \<Rightarrow> char" where
  "symbolChar PAWN = CHR ''P''" | "symbolChar KNIGHT = CHR ''N''" | "symbolChar BISHOP = CHR ''B''"
| "symbolChar ROOK = CHR ''R''" | "symbolChar QUEEN = CHR ''Q''" | "symbolChar KING = CHR ''K''"

definition squareName :: "square \<Rightarrow> string" where
  "squareName sq = [fileChar (fst sq), rankChar (snd sq)]"

definition other :: "color \<Rightarrow> color" where
  "other c = (if c = WHITE then BLACK else WHITE)"

definition pawns_step :: "color \<Rightarrow> square \<Rightarrow> square \<Rightarrow> piece_symbol option \<Rightarrow> move" where
  "pawns_step c sq dest promo =
     \<lparr>move_color = c, move_from = sq, move_to = dest, move_piece = PAWN, move_promotion = promo,
      san = squareName dest @ (case promo of None \<Rightarrow> [] | Some x \<Rightarrow> [CHR ''='', symbolChar x])\<rparr>"

definition pawns_moves :: "pawns_game \<Rightarrow> square \<Rightarrow> move list" where
  "pawns_moves g sq =
     (case map_of (placement g) sq of
        None \<Rightarrow> []
      | Some p \<Rightarrow>
          if color p \<noteq> side g \<or> ptype p \<noteq> PAWN then []
          else (case ahead (color p) (snd sq) of
                  None \<Rightarrow> []
                | Some r \<Rightarrow>
                    if map_of (placement g) (fst sq, r) \<noteq> None then []
                    else if r = R8 \<or> r = R1
                    then map (\<lambda>x. pawns_step (color p) sq (fst sq, r) (Some x)) [QUEEN, ROOK, BISHOP, KNIGHT]
                    else [pawns_step (color p) sq (fst sq, r) None]))"

definition pawns_move :: "pawns_game \<Rightarrow> move_req \<Rightarrow> (error + move option) \<times> pawns_game" where
  "pawns_move g req =
     (case find (\<lambda>m. move_to m = req_to req \<and> move_promotion m = req_promotion req)
             (pawns_moves g (req_from req)) of
        None \<Rightarrow> (Inr None, g)
      | Some m \<Rightarrow>
          (Inr (Some m),
           \<lparr>placement =
              (move_to m, \<lparr>color = move_color m,
                           ptype = (case move_promotion m of None \<Rightarrow> PAWN | Some x \<Rightarrow> x)\<rparr>)
              # filter (\<lambda>e. fst e \<noteq> move_from m) (placement g),
            side = other (side g),
            played = played g @ [m]\<rparr>))"

definition pawns_undo :: "pawns_game \<Rightarrow> move option \<times> pawns_game" where
  "pawns_undo g =
     (case rev (played g) of
        [] \<Rightarrow> (None, g)
      | m # earlier \<Rightarrow>
          (Some m,
           \<lparr>placement =
              (move_from m, \<lparr>color = move_color m, ptype = PAWN\<rparr>)
              # filter (\<lambda>e. fst e \<noteq> move_to m) (placement g),
            side = move_color m,
            played = rev earlier\<rparr>))"

definition pawns_fen :: "pawns_game \<Rightarrow> string" where
  "pawns_fen g =
     concat (map (\<lambda>e. symbolChar (ptype (snd e)) # squareName (fst e) @ '' '') (placement g))
     @ (if side g = WHITE then ''w'' else ''b'')"

definition pawns_pgn :: "pawns_game \<Rightarrow> string" where
  "pawns_pgn g = concat (map (\<lambda>m. san m @ '' '') (played g))"

text \<open>The start: white pawns on e2 and a7, black pawns on e7 and h2, White to move.\<close>

definition pawns_start :: pawns_game where
  "pawns_start =
     \<lparr>placement =
        [((Fe, R2), \<lparr>color = WHITE, ptype = PAWN\<rparr>), ((Fa, R7), \<lparr>color = WHITE, ptype = PAWN\<rparr>),
         ((Fe, R7), \<lparr>color = BLACK, ptype = PAWN\<rparr>), ((Fh, R2), \<lparr>color = BLACK, ptype = PAWN\<rparr>)],
      side = WHITE, played = []\<rparr>"

definition pawnsChess :: "pawns_game chess" where
  "pawnsChess =
     \<lparr>newChess = pawns_start, chess_fen = pawns_fen, chess_pgn = pawns_pgn,
      chess_history = played, chess_turn = side,
      chess_get = (\<lambda>g. map_of (placement g)), chess_moves = pawns_moves,
      chess_move = pawns_move, chess_undo = pawns_undo,
      isCheckmate = (\<lambda>g. False), isStalemate = (\<lambda>g. False),
      isThreefoldRepetition = (\<lambda>g. False), isInsufficientMaterial = (\<lambda>g. False),
      isDraw = (\<lambda>g. False), isCheck = (\<lambda>g. False), isGameOver = (\<lambda>g. False)\<rparr>"

text \<open>
  The same engine in the later style: where \<open>pawns_move\<close> returns a falsy result, it
  throws, and leaves the game as it is.
\<close>

definition pawns_move_throwing ::
  "pawns_game \<Rightarrow> move_req \<Rightarrow> (error + move option) \<times> pawns_game" where
  "pawns_move_throwing g req =
     (case pawns_move g req of
        (Inr None, g') \<Rightarrow>
          (Inl (Error (''Invalid move: '' @ squareName (req_from req) @ squareName (req_to req))), g')
      | answer \<Rightarrow> answer)"

definition throwingPawnsChess :: "pawns_game chess" where
  "throwingPawnsChess = pawnsChess\<lparr>chess_move := pawns_move_throwing\<rparr>"

text \<open>A clipboard that refuses every write.\<close>

definition noClipboard :: "string \<Rightarrow> promise" where
  "noClipboard text = Rejected"

section \<open>The history pairer\<close>

text \<open>Row \<open>j\<close> of the display, read off the move list.\<close>

definition historyPairs_row :: "'a list \<Rightarrow> nat \<Rightarrow> 'a pair" where
  "historyPairs_row ms j = \<lparr>white = at_or_null ms (2 * j), black = at_or_null ms (2 * j + 1)\<rparr>"

text \<open>
  The loop, entered with an even counter \<open>2 * n\<close>, appends the rows from \<open>n\<close> on. The
  induction is on the number of rows still to come.
\<close>

lemma historyPairs_loop_rows:
  "historyPairs_loop ms (2 * n) acc
   = acc @ map (historyPairs_row ms) [n ..< (length ms + 1) div 2]"
proof (induction "(length ms + 1) div 2 - n" arbitrary: n acc)
  case 0
  then have "\<not> 2 * n < length ms" by linarith
  moreover from 0 have "[n ..< (length ms + 1) div 2] = []" by simp
  ultimately show ?case by (subst historyPairs_loop.simps) simp
next
  case (Suc k)
  then have lt: "n < (length ms + 1) div 2" by linarith
  then have lt2: "2 * n < length ms" by linarith
  from Suc have k: "k = (length ms + 1) div 2 - Suc n" by linarith
  have "historyPairs_loop ms (2 * n) acc
        = historyPairs_loop ms (2 * Suc n) (acc @ [historyPairs_row ms n])"
    using lt2 by (subst historyPairs_loop.simps) (simp add: historyPairs_row_def)
  also have "\<dots> = (acc @ [historyPairs_row ms n])
                  @ map (historyPairs_row ms) [Suc n ..< (length ms + 1) div 2]"
    by (rule Suc.hyps(1) [OF k])
  also have "\<dots> = acc @ map (historyPairs_row ms) [n ..< (length ms + 1) div 2]"
    using lt by (simp add: upt_conv_Cons)
  finally show ?case .
qed

lemma historyPairs_rows:
  "historyPairs ms = map (historyPairs_row ms) [0 ..< (length ms + 1) div 2]"
  using historyPairs_loop_rows [of ms 0 "[]"] by (simp add: historyPairs_def)

lemma slots_upt: "concat (map (\<lambda>j. [f (2 * j), f (2 * j + 1)]) [0 ..< m]) = map f [0 ..< 2 * m]"
  by (induction m) simp_all

lemma at_or_null_all: "map (at_or_null ms) [0 ..< length ms] = map Some ms"
  by (rule nth_equalityI) (simp_all add: at_or_null_def)

lemma slots_in_order:
  "concat (map (\<lambda>p. [white p, black p]) (historyPairs ms))
   = map Some ms @ (if odd (length ms) then [None] else [])"
proof -
  have "concat (map (\<lambda>p. [white p, black p]) (historyPairs ms))
        = map (at_or_null ms) [0 ..< 2 * ((length ms + 1) div 2)]"
    using slots_upt [of "at_or_null ms" "(length ms + 1) div 2"]
    by (simp add: historyPairs_rows historyPairs_row_def comp_def)
  also have "\<dots> = map Some ms @ (if odd (length ms) then [None] else [])"
  proof (cases "odd (length ms)")
    case True
    then have "2 * ((length ms + 1) div 2) = Suc (length ms)" by presburger
    then show ?thesis using True at_or_null_all [of ms] by (simp add: at_or_null_def)
  next
    case False
    then have "2 * ((length ms + 1) div 2) = length ms" by presburger
    then show ?thesis using False at_or_null_all [of ms] by simp
  qed
  finally show ?thesis .
qed

text \<open>
  Claim C6. \<open>historyPairs\<close> chunks the move list two at a time, in order: the empty list
  gives no row; there are \<open>(n + 1) div 2\<close> rows for \<open>n\<close> moves; row \<open>i\<close> holds move
  \<open>2 * i\<close> as white and move \<open>2 * i + 1\<close> as black, or no black move when there is
  none; a list of \<open>2 * k + 1\<close> moves gives \<open>k + 1\<close> rows, the last with the last move as
  white and no black move; and the slots of the rows, read in order, are the moves in
  order, followed by one empty slot when their number is odd (nothing is reordered,
  dropped or added).
\<close>

theorem historyPairs_chunks:
  "historyPairs ([] :: 'a list) = [] \<and>
   length (historyPairs ms) = (length ms + 1) div 2 \<and>
   (\<forall>i < length (historyPairs ms).
      white (historyPairs ms ! i) = Some (ms ! (2 * i)) \<and>
      black (historyPairs ms ! i)
        = (if 2 * i + 1 < length ms then Some (ms ! (2 * i + 1)) else None)) \<and>
   (\<forall>k. length ms = 2 * k + 1 \<longrightarrow>
      length (historyPairs ms) = k + 1 \<and>
      white (last (historyPairs ms)) = Some (last ms) \<and>
      black (last (historyPairs ms)) = None) \<and>
   concat (map (\<lambda>p. [white p, black p]) (historyPairs ms))
     = map Some ms @ (if odd (length ms) then [None] else [])"
proof (intro conjI allI impI)
  show "historyPairs ([] :: 'a list) = []" by (simp add: historyPairs_rows)
  show "length (historyPairs ms) = (length ms + 1) div 2" by (simp add: historyPairs_rows)
  show "concat (map (\<lambda>p. [white p, black p]) (historyPairs ms))
     = map Some ms @ (if odd (length ms) then [None] else [])" by (rule slots_in_order)
next
  fix i assume "i < length (historyPairs ms)"
  then have i: "i < (length ms + 1) div 2" by (simp add: historyPairs_rows)
  then have "2 * i < length ms" by linarith
  with i show "white (historyPairs ms ! i) = Some (ms ! (2 * i))"
    by (simp add: historyPairs_rows historyPairs_row_def at_or_null_def)
  from i show "black (historyPairs ms ! i)
        = (if 2 * i + 1 < length ms then Some (ms ! (2 * i + 1)) else None)"
    by (simp add: historyPairs_rows historyPairs_row_def at_or_null_def)
next
  fix k assume odd: "length ms = 2 * k + 1"
  then have half: "(length ms + 1) div 2 = k + 1" by simp
  then show "length (historyPairs ms) = k + 1" by (simp add: historyPairs_rows)
  have nems: "ms \<noteq> []" using odd by auto
  have l: "last (historyPairs ms) = historyPairs_row ms k"
    using half by (simp add: historyPairs_rows last_map last_upt)
  show "white (last (historyPairs ms)) = Some (last ms)"
    using odd nems by (simp add: l historyPairs_row_def at_or_null_def last_conv_nth)
  show "black (last (historyPairs ms)) = None"
    using odd by (simp add: l historyPairs_row_def at_or_null_def)
qed

theorem historyPairs_chunks_witness:
  "length [10, 20, 30 :: nat] = 2 * 1 + 1 \<and>
   historyPairs [10, 20, 30 :: nat]
     = [\<lparr>white = Some 10, black = Some 20\<rparr>, \<lparr>white = Some 30, black = None\<rparr>] \<and>
   length (historyPairs [10, 20, 30 :: nat]) = 1 + 1 \<and>
   black (last (historyPairs [10, 20, 30 :: nat])) = None \<and>
   white (historyPairs [10, 20, 30 :: nat] ! 1) = Some 30"
  using historyPairs_chunks [of "[10, 20, 30 :: nat]"]
  by (simp add: historyPairs_def at_or_null_def)

section \<open>The status deriver\<close>

text \<open>
  Claim C5. \<open>computeStatus\<close> asks the engine in the order checkmate, stalemate, threefold
  repetition, insufficient material, draw, check, and answers with the message of the
  first that holds, whatever the later ones say; with none it names the side to move. The
  checkmate message names the side that is not to move as the winner, the check message
  names the side to move.
\<close>

theorem computeStatus_priority:
  "(isCheckmate E g \<and> chess_turn E g = WHITE \<longrightarrow>
      computeStatus E g = ''Checkmate '' @ emDash @ '' Black wins'') \<and>
   (isCheckmate E g \<and> chess_turn E g = BLACK \<longrightarrow>
      computeStatus E g = ''Checkmate '' @ emDash @ '' White wins'') \<and>
   (\<not> isCheckmate E g \<and> isStalemate E g \<longrightarrow> computeStatus E g = ''Stalemate'') \<and>
   (\<not> isCheckmate E g \<and> \<not> isStalemate E g \<and> isThreefoldRepetition E g \<longrightarrow>
      computeStatus E g = ''Draw '' @ emDash @ '' threefold repetition'') \<and>
   (\<not> isCheckmate E g \<and> \<not> isStalemate E g \<and> \<not> isThreefoldRepetition E g \<and>
    isInsufficientMaterial E g \<longrightarrow>
      computeStatus E g = ''Draw '' @ emDash @ '' insufficient material'') \<and>
   (\<not> isCheckmate E g \<and> \<not> isStalemate E g \<and> \<not> isThreefoldRepetition E g \<and>
    \<not> isInsufficientMaterial E g \<and> isDraw E g \<longrightarrow> computeStatus E g = ''Draw'') \<and>
   (\<not> isCheckmate E g \<and> \<not> isStalemate E g \<and> \<not> isThreefoldRepetition E g \<and>
    \<not> isInsufficientMaterial E g \<and> \<not> isDraw E g \<and> isCheck E g \<longrightarrow>
      computeStatus E g =
        (if chess_turn E g = WHITE then ''White'' else ''Black'') @ '' to move '' @ emDash @ '' CHECK'') \<and>
   (\<not> isCheckmate E g \<and> \<not> isStalemate E g \<and> \<not> isThreefoldRepetition E g \<and>
    \<not> isInsufficientMaterial E g \<and> \<not> isDraw E g \<and> \<not> isCheck E g \<longrightarrow>
      computeStatus E g = (if chess_turn E g = WHITE then ''White'' else ''Black'') @ '' to move'')"
  by (cases "chess_turn E g") (simp_all add: computeStatus_def)

theorem computeStatus_priority_witness:
  "computeStatus (pawnsChess\<lparr>isCheckmate := (\<lambda>g. True), isStalemate := (\<lambda>g. True), isCheck := (\<lambda>g. True)\<rparr>) pawns_start
     = ''Checkmate '' @ emDash @ '' Black wins'' \<and>
   computeStatus (pawnsChess\<lparr>isCheckmate := (\<lambda>g. True), isDraw := (\<lambda>g. True)\<rparr>) (pawns_start\<lparr>side := BLACK\<rparr>)
     = ''Checkmate '' @ emDash @ '' White wins'' \<and>
   computeStatus (pawnsChess\<lparr>isStalemate := (\<lambda>g. True), isDraw := (\<lambda>g. True)\<rparr>) pawns_start = ''Stalemate'' \<and>
   computeStatus (pawnsChess\<lparr>isThreefoldRepetition := (\<lambda>g. True), isInsufficientMaterial := (\<lambda>g. True), isDraw := (\<lambda>g. True)\<rparr>) pawns_start
     = ''Draw '' @ emDash @ '' threefold repetition'' \<and>
   computeStatus (pawnsChess\<lparr>isInsufficientMaterial := (\<lambda>g. True), isDraw := (\<lambda>g. True)\<rparr>) pawns_start
     = ''Draw '' @ emDash @ '' insufficient material'' \<and>
   computeStatus (pawnsChess\<lparr>isDraw := (\<lambda>g. True), isCheck := (\<lambda>g. True)\<rparr>) pawns_start = ''Draw'' \<and>
   computeStatus (pawnsChess\<lparr>isCheck := (\<lambda>g. True)\<rparr>) (pawns_start\<lparr>side := BLACK\<rparr>)
     = ''Black to move '' @ emDash @ '' CHECK'' \<and>
   computeStatus pawnsChess pawns_start = ''White to move''"
  using
    computeStatus_priority [of "pawnsChess\<lparr>isCheckmate := (\<lambda>g. True), isStalemate := (\<lambda>g. True), isCheck := (\<lambda>g. True)\<rparr>" pawns_start]
    computeStatus_priority [of "pawnsChess\<lparr>isCheckmate := (\<lambda>g. True), isDraw := (\<lambda>g. True)\<rparr>" "pawns_start\<lparr>side := BLACK\<rparr>"]
    computeStatus_priority [of "pawnsChess\<lparr>isStalemate := (\<lambda>g. True), isDraw := (\<lambda>g. True)\<rparr>" pawns_start]
    computeStatus_priority [of "pawnsChess\<lparr>isThreefoldRepetition := (\<lambda>g. True), isInsufficientMaterial := (\<lambda>g. True), isDraw := (\<lambda>g. True)\<rparr>" pawns_start]
    computeStatus_priority [of "pawnsChess\<lparr>isInsufficientMaterial := (\<lambda>g. True), isDraw := (\<lambda>g. True)\<rparr>" pawns_start]
    computeStatus_priority [of "pawnsChess\<lparr>isDraw := (\<lambda>g. True), isCheck := (\<lambda>g. True)\<rparr>" pawns_start]
    computeStatus_priority [of "pawnsChess\<lparr>isCheck := (\<lambda>g. True)\<rparr>" "pawns_start\<lparr>side := BLACK\<rparr>"]
    computeStatus_priority [of pawnsChess pawns_start]
  by (simp add: pawnsChess_def pawns_start_def)

section \<open>The selection coordinator\<close>

text \<open>The defining equations of the small engine, for running the examples.\<close>

lemmas pawns_eval = pawnsChess_def pawns_start_def pawns_move_def pawns_moves_def pawns_step_def
  pawns_undo_def pawns_fen_def pawns_pgn_def squareName_def other_def
  throwingPawnsChess_def pawns_move_throwing_def

text \<open>
  Claim C3. On a square with no piece, or with a piece of the side that is not to move,
  \<open>selectSquare\<close> empties the selection and the legal targets and changes nothing else.
  On a square with a piece of the side to move it selects the square and sets the legal
  targets to the destinations of the moves the engine lists for that square, in the
  engine's order; as a set they are exactly the engine's destinations.
\<close>

theorem selectSquare_cases:
  "((chess_get E (gameRef s) sq = None \<or>
     (\<exists>p. chess_get E (gameRef s) sq = Some p \<and> color p \<noteq> chess_turn E (gameRef s))) \<longrightarrow>
      selectSquare E s sq = s\<lparr>selected := None, legalTargets := []\<rparr>) \<and>
   (\<forall>p. chess_get E (gameRef s) sq = Some p \<and> color p = chess_turn E (gameRef s) \<longrightarrow>
      selectSquare E s sq
        = s\<lparr>selected := Some sq, legalTargets := map move_to (chess_moves E (gameRef s) sq)\<rparr> \<and>
      selected (selectSquare E s sq) = Some sq \<and>
      set (legalTargets (selectSquare E s sq)) = move_to ` set (chess_moves E (gameRef s) sq))"
  by (auto simp: selectSquare_def clearSelection_def Let_def)

theorem selectSquare_cases_witness:
  "chess_get pawnsChess pawns_start (Fe, R4) = None \<and>
   selectSquare pawnsChess ((initialState pawnsChess)\<lparr>selected := Some (Fe, R2), legalTargets := [(Fe, R3)]\<rparr>) (Fe, R4)
     = initialState pawnsChess \<and>
   chess_get pawnsChess pawns_start (Fe, R7) = Some \<lparr>color = BLACK, ptype = PAWN\<rparr> \<and>
   chess_turn pawnsChess pawns_start = WHITE \<and>
   selectSquare pawnsChess ((initialState pawnsChess)\<lparr>selected := Some (Fe, R2), legalTargets := [(Fe, R3)]\<rparr>) (Fe, R7)
     = initialState pawnsChess \<and>
   chess_get pawnsChess pawns_start (Fa, R7) = Some \<lparr>color = WHITE, ptype = PAWN\<rparr> \<and>
   selected (selectSquare pawnsChess (initialState pawnsChess) (Fa, R7)) = Some (Fa, R7) \<and>
   set (legalTargets (selectSquare pawnsChess (initialState pawnsChess) (Fa, R7))) = {(Fa, R8)} \<and>
   legalTargets (selectSquare pawnsChess (initialState pawnsChess) (Fa, R7))
     = [(Fa, R8), (Fa, R8), (Fa, R8), (Fa, R8)]"
  using
    selectSquare_cases [of pawnsChess "(initialState pawnsChess)\<lparr>selected := Some (Fe, R2), legalTargets := [(Fe, R3)]\<rparr>" "(Fe, R4)"]
    selectSquare_cases [of pawnsChess "(initialState pawnsChess)\<lparr>selected := Some (Fe, R2), legalTargets := [(Fe, R3)]\<rparr>" "(Fe, R7)"]
    selectSquare_cases [of pawnsChess "initialState pawnsChess" "(Fa, R7)"]
  by (simp add: pawns_eval initialState_def)

section \<open>The move submission gate\<close>

text \<open>
  Claim C4. \<open>tryMove\<close> takes a move for a promotion exactly when the piece on \<open>from\<close> is
  a pawn and \<open>to\<close> is on rank 8 for a white pawn or on rank 1 for a black one. It hands
  the engine the request \<open>from\<close>, \<open>to\<close> with the queen as promotion piece in that case
  and with no promotion piece otherwise: what \<open>tryMove\<close> returns (or throws) and the
  engine state it leaves are the engine's answer to that one request.
\<close>

theorem isPromotionMove_queen:
  "(isPromotionMove E g from to \<longleftrightarrow>
      (\<exists>p. chess_get E g from = Some p \<and> ptype p = PAWN \<and>
           (color p = WHITE \<and> snd to = R8 \<or> color p = BLACK \<and> snd to = R1))) \<and>
   tryMove_move E g from to =
     chess_move E g \<lparr>req_from = from, req_to = to,
                     req_promotion = (if isPromotionMove E g from to then Some QUEEN else None)\<rparr> \<and>
   fst (tryMove E s from to) =
     map_sum id (\<lambda>move. move \<noteq> None)
       (fst (chess_move E (gameRef s)
          \<lparr>req_from = from, req_to = to,
           req_promotion = (if isPromotionMove E (gameRef s) from to then Some QUEEN else None)\<rparr>)) \<and>
   gameRef (snd (tryMove E s from to)) =
     snd (chess_move E (gameRef s)
        \<lparr>req_from = from, req_to = to,
         req_promotion = (if isPromotionMove E (gameRef s) from to then Some QUEEN else None)\<rparr>)"
proof (intro conjI)
  show "isPromotionMove E g from to \<longleftrightarrow>
      (\<exists>p. chess_get E g from = Some p \<and> ptype p = PAWN \<and>
           (color p = WHITE \<and> snd to = R8 \<or> color p = BLACK \<and> snd to = R1))"
    by (auto simp: isPromotionMove_def Let_def split: option.splits)
  show "tryMove_move E g from to =
     chess_move E g \<lparr>req_from = from, req_to = to,
                     req_promotion = (if isPromotionMove E g from to then Some QUEEN else None)\<rparr>"
    by (simp add: tryMove_move_def)
  show "fst (tryMove E s from to) =
     map_sum id (\<lambda>move. move \<noteq> None)
       (fst (chess_move E (gameRef s)
          \<lparr>req_from = from, req_to = to,
           req_promotion = (if isPromotionMove E (gameRef s) from to then Some QUEEN else None)\<rparr>))"
    by (simp add: tryMove_def tryMove_move_def split: prod.splits sum.splits option.splits)
  show "gameRef (snd (tryMove E s from to)) =
     snd (chess_move E (gameRef s)
        \<lparr>req_from = from, req_to = to,
         req_promotion = (if isPromotionMove E (gameRef s) from to then Some QUEEN else None)\<rparr>)"
    by (simp add: tryMove_def tryMove_move_def syncFromGame_def clearSelection_def
        split: prod.splits sum.splits option.splits)
qed

theorem isPromotionMove_queen_witness:
  "isPromotionMove pawnsChess pawns_start (Fa, R7) (Fa, R8) \<and>
   \<not> isPromotionMove pawnsChess pawns_start (Fe, R2) (Fe, R3) \<and>
   \<not> isPromotionMove pawnsChess pawns_start (Fe, R7) (Fe, R8) \<and>
   isPromotionMove pawnsChess pawns_start (Fh, R2) (Fa, R1) \<and>
   map_sum id (map_option move_promotion) (fst (tryMove_move pawnsChess pawns_start (Fa, R7) (Fa, R8)))
     = Inr (Some (Some QUEEN)) \<and>
   map_sum id (map_option move_promotion) (fst (tryMove_move pawnsChess pawns_start (Fe, R2) (Fe, R3)))
     = Inr (Some None) \<and>
   fst (tryMove pawnsChess (initialState pawnsChess) (Fa, R7) (Fa, R8)) = Inr True \<and>
   map_of (placement (gameRef (snd (tryMove pawnsChess (initialState pawnsChess) (Fa, R7) (Fa, R8))))) (Fa, R8)
     = Some \<lparr>color = WHITE, ptype = QUEEN\<rparr>"
  using
    isPromotionMove_queen [of pawnsChess pawns_start "(Fa, R7)" "(Fa, R8)" "initialState pawnsChess"]
    isPromotionMove_queen [of pawnsChess pawns_start "(Fe, R2)" "(Fe, R3)" "initialState pawnsChess"]
    isPromotionMove_queen [of pawnsChess pawns_start "(Fe, R7)" "(Fe, R8)" "initialState pawnsChess"]
    isPromotionMove_queen [of pawnsChess pawns_start "(Fh, R2)" "(Fa, R1)" "initialState pawnsChess"]
  by (simp add: pawns_eval initialState_def)

subsection \<open>A rejected move\<close>

text \<open>
  What \<open>tryMove\<close> does when the engine does not apply the move, for any engine. It
  writes no state cell, whichever way the engine rejects: the state differs at most in
  the engine object, as the engine's call left it.
\<close>

lemma tryMove_not_applied:
  assumes "fst (tryMove_move E (gameRef s) from to) = Inl e \<or>
           fst (tryMove_move E (gameRef s) from to) = Inr None"
  shows "snd (tryMove E s from to) = s\<lparr>gameRef := snd (tryMove_move E (gameRef s) from to)\<rparr>"
  using assms by (cases "tryMove_move E (gameRef s) from to") (auto simp: tryMove_def)

lemma tryMove_not_applied_cells:
  assumes "fst (tryMove_move E (gameRef s) from to) = Inl e \<or>
           fst (tryMove_move E (gameRef s) from to) = Inr None"
  shows "selected (snd (tryMove E s from to)) = selected s \<and>
         legalTargets (snd (tryMove E s from to)) = legalTargets s \<and>
         lastMove (snd (tryMove E s from to)) = lastMove s \<and>
         fen (snd (tryMove E s from to)) = fen s \<and>
         pgn (snd (tryMove E s from to)) = pgn s \<and>
         moves (snd (tryMove E s from to)) = moves s \<and>
         status (snd (tryMove E s from to)) = status s"
  by (simp add: tryMove_not_applied [OF assms])

text \<open>A falsy answer makes \<open>tryMove\<close> return \<open>false\<close>, and a click then reselects.\<close>

lemma tryMove_falsy:
  assumes "fst (tryMove_move E (gameRef s) from to) = Inr None"
  shows "fst (tryMove E s from to) = Inr False"
  using assms by (cases "tryMove_move E (gameRef s) from to") (simp add: tryMove_def)

lemma onSquareClick_falsy:
  assumes "selected s = Some sel" and "tryMove_move E (gameRef s) sel sq = (Inr None, g')"
  shows "onSquareClick E s sq = (Inr (), selectSquare E (s\<lparr>gameRef := g'\<rparr>) sq)"
  using assms by (simp add: onSquareClick_def tryMove_def)

text \<open>
  A thrown error is not caught: \<open>tryMove\<close> throws it and returns nothing, and a click
  ends there, before \<open>selectSquare\<close>.
\<close>

lemma tryMove_throws:
  assumes "fst (tryMove_move E (gameRef s) from to) = Inl e"
  shows "fst (tryMove E s from to) = Inl e"
  using assms by (cases "tryMove_move E (gameRef s) from to") (simp add: tryMove_def)

lemma onSquareClick_throws:
  assumes "selected s = Some sel" and "tryMove_move E (gameRef s) sel sq = (Inl e, g')"
  shows "onSquareClick E s sq = (Inl e, s\<lparr>gameRef := g'\<rparr>)"
  using assms by (simp add: onSquareClick_def tryMove_def)

text \<open>
  Claim C1. A rejected move should make \<open>tryMove\<close> return \<open>false\<close> and change no state.
  The program does so with an engine that rejects by a falsy answer. With an engine that
  rejects by throwing it changes no state but does not return \<open>false\<close>: run on the
  throwing engine, with e2 selected, \<open>tryMove\<close> from e2 to e5 ends with the engine's
  error and leaves the state as it was; a click on e7 ends with the error too and keeps
  the selection on e2, where \<open>selectSquare\<close> on e7, a black pawn, would have cleared it.
  On the engine with falsy answers the same two calls return \<open>false\<close> and reselect.
\<close>

theorem tryMove_rejected_throws:
  "fst (tryMove_move throwingPawnsChess pawns_start (Fe, R2) (Fe, R5))
     = Inl (Error ''Invalid move: e2e5'') \<and>
   tryMove throwingPawnsChess
      ((initialState throwingPawnsChess)\<lparr>selected := Some (Fe, R2), legalTargets := [(Fe, R3)]\<rparr>)
      (Fe, R2) (Fe, R5)
     = (Inl (Error ''Invalid move: e2e5''),
        (initialState throwingPawnsChess)\<lparr>selected := Some (Fe, R2), legalTargets := [(Fe, R3)]\<rparr>) \<and>
   fst (tryMove throwingPawnsChess
      ((initialState throwingPawnsChess)\<lparr>selected := Some (Fe, R2), legalTargets := [(Fe, R3)]\<rparr>)
      (Fe, R2) (Fe, R5)) \<noteq> Inr False \<and>
   onSquareClick throwingPawnsChess
      ((initialState throwingPawnsChess)\<lparr>selected := Some (Fe, R2), legalTargets := [(Fe, R3)]\<rparr>)
      (Fe, R7)
     = (Inl (Error ''Invalid move: e2e7''),
        (initialState throwingPawnsChess)\<lparr>selected := Some (Fe, R2), legalTargets := [(Fe, R3)]\<rparr>) \<and>
   selectSquare throwingPawnsChess
      ((initialState throwingPawnsChess)\<lparr>selected := Some (Fe, R2), legalTargets := [(Fe, R3)]\<rparr>)
      (Fe, R7)
     = initialState throwingPawnsChess \<and>
   tryMove pawnsChess
      ((initialState pawnsChess)\<lparr>selected := Some (Fe, R2), legalTargets := [(Fe, R3)]\<rparr>)
      (Fe, R2) (Fe, R5)
     = (Inr False,
        (initialState pawnsChess)\<lparr>selected := Some (Fe, R2), legalTargets := [(Fe, R3)]\<rparr>) \<and>
   onSquareClick pawnsChess
      ((initialState pawnsChess)\<lparr>selected := Some (Fe, R2), legalTargets := [(Fe, R3)]\<rparr>)
      (Fe, R7)
     = (Inr (), initialState pawnsChess)"
proof -
  let ?t = "(initialState throwingPawnsChess)\<lparr>selected := Some (Fe, R2), legalTargets := [(Fe, R3)]\<rparr>"
  let ?n = "(initialState pawnsChess)\<lparr>selected := Some (Fe, R2), legalTargets := [(Fe, R3)]\<rparr>"
  have game: "gameRef ?t = pawns_start" "gameRef ?n = pawns_start" "selected ?t = Some (Fe, R2)"
    "selected ?n = Some (Fe, R2)"
    by (simp_all add: initialState_def pawnsChess_def throwingPawnsChess_def)
  have e5: "tryMove_move throwingPawnsChess pawns_start (Fe, R2) (Fe, R5)
              = (Inl (Error ''Invalid move: e2e5''), pawns_start)"
    by (simp add: pawns_eval tryMove_move_def isPromotionMove_def)
  have e7: "tryMove_move throwingPawnsChess pawns_start (Fe, R2) (Fe, R7)
              = (Inl (Error ''Invalid move: e2e7''), pawns_start)"
    by (simp add: pawns_eval tryMove_move_def isPromotionMove_def)
  have n5: "tryMove_move pawnsChess pawns_start (Fe, R2) (Fe, R5) = (Inr None, pawns_start)"
    by (simp add: pawns_eval tryMove_move_def isPromotionMove_def)
  have n7: "tryMove_move pawnsChess pawns_start (Fe, R2) (Fe, R7) = (Inr None, pawns_start)"
    by (simp add: pawns_eval tryMove_move_def isPromotionMove_def)
  have same: "?t\<lparr>gameRef := pawns_start\<rparr> = ?t" "?n\<lparr>gameRef := pawns_start\<rparr> = ?n"
    by (simp_all add: initialState_def pawnsChess_def throwingPawnsChess_def)
  have t1: "tryMove throwingPawnsChess ?t (Fe, R2) (Fe, R5) = (Inl (Error ''Invalid move: e2e5''), ?t)"
    using tryMove_throws [of throwingPawnsChess ?t "(Fe, R2)" "(Fe, R5)" "Error ''Invalid move: e2e5''"]
      tryMove_not_applied [of throwingPawnsChess ?t "(Fe, R2)" "(Fe, R5)" "Error ''Invalid move: e2e5''"]
    by (simp add: game e5 same prod_eq_iff)
  have t2: "onSquareClick throwingPawnsChess ?t (Fe, R7) = (Inl (Error ''Invalid move: e2e7''), ?t)"
    using onSquareClick_throws [of ?t "(Fe, R2)" throwingPawnsChess "(Fe, R7)" "Error ''Invalid move: e2e7''" pawns_start]
    by (simp add: game e7 same)
  have t3: "selectSquare throwingPawnsChess ?t (Fe, R7) = initialState throwingPawnsChess"
    by (simp add: pawns_eval initialState_def selectSquare_def clearSelection_def)
  have n1: "tryMove pawnsChess ?n (Fe, R2) (Fe, R5) = (Inr False, ?n)"
    using tryMove_falsy [of pawnsChess ?n "(Fe, R2)" "(Fe, R5)"]
      tryMove_not_applied [of pawnsChess ?n "(Fe, R2)" "(Fe, R5)" "Error []"]
    by (simp add: game n5 same prod_eq_iff)
  have n2: "onSquareClick pawnsChess ?n (Fe, R7) = (Inr (), initialState pawnsChess)"
    using onSquareClick_falsy [of ?n "(Fe, R2)" pawnsChess "(Fe, R7)" pawns_start]
    by (simp add: game n7 same) (simp add: pawns_eval initialState_def selectSquare_def clearSelection_def)
  show ?thesis
    by (simp add: e5 t1 t2 t3 n1 n2)
qed

section \<open>The move list follows the engine\<close>

lemma run_Nil: "run E W [] = initialState E"
  by (simp add: run_def)

lemma run_snoc: "run E W (evs @ [e]) = handle E W (run E W evs) e"
  by (simp add: run_def)

subsection \<open>The engine's part\<close>

lemma contract_new: "engine_contract E \<Longrightarrow> chess_history E (newChess E) = []"
  by (simp add: engine_contract_def)

lemma contract_move:
  assumes "engine_contract E"
  shows "case chess_move E g req of
        (Inl e, g') \<Rightarrow> chess_history E g' = chess_history E g
      | (Inr None, g') \<Rightarrow> chess_history E g' = chess_history E g
      | (Inr (Some m), g') \<Rightarrow> length (chess_history E g') = length (chess_history E g) + 1"
  using assms unfolding engine_contract_def by simp

lemma contract_thrown:
  assumes "engine_contract E" and "chess_move E g req = (Inl e, g')"
  shows "chess_history E g' = chess_history E g"
  using contract_move [OF assms(1), of g req] assms(2) by simp

lemma contract_rejected:
  assumes "engine_contract E" and "chess_move E g req = (Inr None, g')"
  shows "chess_history E g' = chess_history E g"
  using contract_move [OF assms(1), of g req] assms(2) by simp

lemma contract_applied:
  assumes "engine_contract E" and "chess_move E g req = (Inr (Some m), g')"
  shows "length (chess_history E g') = length (chess_history E g) + 1"
  using contract_move [OF assms(1), of g req] assms(2) by simp

lemma contract_nothing_undone:
  assumes "engine_contract E" and "chess_undo E g = (None, g')"
  shows "chess_history E g' = chess_history E g"
proof -
  from assms(1) have "case chess_undo E g of
        (None, g') \<Rightarrow> chess_history E g' = chess_history E g
      | (Some m, g') \<Rightarrow> True"
    unfolding engine_contract_def by simp
  with assms(2) show ?thesis by simp
qed

lemma tryMove_move_request:
  "\<exists>req. tryMove_move E g from to = chess_move E g req"
  by (auto simp: tryMove_move_def)

subsection \<open>The shown move list follows the engine\<close>

lemma synced_initialState: "engine_contract E \<Longrightarrow> synced E (initialState E)"
  by (simp add: synced_def initialState_def contract_new)

lemma synced_selectSquare: "synced E s \<Longrightarrow> synced E (selectSquare E s sq)"
  by (simp add: synced_def selectSquare_def clearSelection_def Let_def split: option.splits)

lemma synced_tryMove:
  assumes "engine_contract E" and "synced E s"
  shows "synced E (snd (tryMove E s from to))"
proof -
  obtain req where req: "tryMove_move E (gameRef s) from to = chess_move E (gameRef s) req"
    using tryMove_move_request [of E "gameRef s" "from" "to"] by auto
  obtain r g' where r: "chess_move E (gameRef s) req = (r, g')"
    by (cases "chess_move E (gameRef s) req")
  show ?thesis
  proof (cases r)
    case (Inl e)
    with r assms show ?thesis
      using contract_thrown [of E "gameRef s" req e g']
      by (simp add: tryMove_def req synced_def)
  next
    case (Inr answer)
    show ?thesis
    proof (cases answer)
      case None
      with Inr r assms show ?thesis
        using contract_rejected [of E "gameRef s" req g']
        by (simp add: tryMove_def req synced_def)
    next
      case (Some m)
      with Inr r show ?thesis
        by (simp add: tryMove_def req synced_def syncFromGame_def clearSelection_def)
    qed
  qed
qed

lemma synced_onSquareClick:
  assumes "engine_contract E" and "synced E s"
  shows "synced E (snd (onSquareClick E s sq))"
proof (cases "selected s")
  case None
  with assms(2) show ?thesis by (simp add: onSquareClick_def synced_selectSquare)
next
  case (Some sel)
  obtain r s' where t: "tryMove E s sel sq = (r, s')" by (cases "tryMove E s sel sq")
  have "synced E s'" using synced_tryMove [OF assms, of sel sq] t by simp
  then show ?thesis using Some t
    by (cases r) (simp_all add: onSquareClick_def synced_selectSquare)
qed

lemma synced_onNewGame: "synced E (onNewGame E s)"
  by (simp add: synced_def onNewGame_def syncFromGame_def clearSelection_def)

lemma synced_onUndo:
  assumes "engine_contract E" and "synced E s"
  shows "synced E (onUndo E s)"
proof -
  obtain r g' where r: "chess_undo E (gameRef s) = (r, g')" by (cases "chess_undo E (gameRef s)")
  show ?thesis
  proof (cases r)
    case None
    with r assms show ?thesis
      using contract_nothing_undone [of E "gameRef s" g']
      by (simp add: onUndo_def synced_def)
  next
    case (Some m)
    with r show ?thesis
      by (simp add: onUndo_def synced_def syncFromGame_def clearSelection_def)
  qed
qed

lemma synced_handle:
  assumes "engine_contract E" and "synced E s"
  shows "synced E (handle E W s e)"
  using assms
  by (cases e)
     (simp_all add: synced_onSquareClick synced_tryMove synced_selectSquare synced_onNewGame
        synced_onUndo onPieceDrop_def onPieceDragBegin_def onCopyPGN_def)

lemma synced_run: "engine_contract E \<Longrightarrow> synced E (run E W evs)"
  by (induction evs rule: rev_induct) (simp_all add: run_Nil run_snoc synced_initialState synced_handle)

text \<open>Both small engines keep their move list as \<open>engine_contract\<close> says.\<close>

lemma pawns_contract: "engine_contract pawnsChess"
  unfolding engine_contract_def
proof (intro conjI allI)
  show "chess_history pawnsChess (newChess pawnsChess) = []"
    by (simp add: pawnsChess_def pawns_start_def)
  fix g :: pawns_game and req
  show "case chess_move pawnsChess g req of
        (Inl e, g') \<Rightarrow> chess_history pawnsChess g' = chess_history pawnsChess g
      | (Inr None, g') \<Rightarrow> chess_history pawnsChess g' = chess_history pawnsChess g
      | (Inr (Some m), g') \<Rightarrow>
          length (chess_history pawnsChess g') = length (chess_history pawnsChess g) + 1"
    by (simp add: pawnsChess_def pawns_move_def split: option.splits)
  show "case chess_undo pawnsChess g of
        (None, g') \<Rightarrow> chess_history pawnsChess g' = chess_history pawnsChess g
      | (Some m, g') \<Rightarrow> True"
    by (simp add: pawnsChess_def pawns_undo_def split: list.splits)
qed

lemma throwing_pawns_contract: "engine_contract throwingPawnsChess"
  unfolding engine_contract_def
proof (intro conjI allI)
  show "chess_history throwingPawnsChess (newChess throwingPawnsChess) = []"
    by (simp add: throwingPawnsChess_def pawnsChess_def pawns_start_def)
  fix g :: pawns_game and req
  show "case chess_move throwingPawnsChess g req of
        (Inl e, g') \<Rightarrow> chess_history throwingPawnsChess g' = chess_history throwingPawnsChess g
      | (Inr None, g') \<Rightarrow> chess_history throwingPawnsChess g' = chess_history throwingPawnsChess g
      | (Inr (Some m), g') \<Rightarrow>
          length (chess_history throwingPawnsChess g')
            = length (chess_history throwingPawnsChess g) + 1"
    by (simp add: throwingPawnsChess_def pawns_move_throwing_def pawnsChess_def pawns_move_def
        split: option.splits)
  show "case chess_undo throwingPawnsChess g of
        (None, g') \<Rightarrow> chess_history throwingPawnsChess g' = chess_history throwingPawnsChess g
      | (Some m, g') \<Rightarrow> True"
    by (simp add: throwingPawnsChess_def pawnsChess_def pawns_undo_def split: list.splits)
qed

text \<open>
  Claim C2. When the engine applies the submitted move and leaves the state \<open>g'\<close>,
  \<open>tryMove\<close> returns \<open>true\<close>, sets the last move to the pair \<open>(from, to)\<close>, empties
  selection and legal targets, and sets fen, pgn, move list and status to what the engine
  reports in \<open>g'\<close>. In every state the component can reach, with an engine that keeps
  its move list as \<open>engine_contract\<close> says, the move list is then longer by exactly one.
\<close>

theorem tryMove_accepted:
  assumes "tryMove_move E (gameRef s) from to = (Inr (Some m), g')"
  shows "tryMove E s from to =
           (Inr True, s\<lparr>gameRef := g', lastMove := Some (from, to), selected := None, legalTargets := [],
                    fen := chess_fen E g', pgn := chess_pgn E g', moves := chess_history E g',
                    status := computeStatus E g'\<rparr>) \<and>
         (engine_contract E \<and> s = run E W evs \<longrightarrow>
            length (moves (snd (tryMove E s from to))) = length (moves s) + 1)"
proof (intro conjI impI)
  show eq: "tryMove E s from to =
           (Inr True, s\<lparr>gameRef := g', lastMove := Some (from, to), selected := None, legalTargets := [],
                    fen := chess_fen E g', pgn := chess_pgn E g', moves := chess_history E g',
                    status := computeStatus E g'\<rparr>)"
    using assms by (simp add: tryMove_def syncFromGame_def clearSelection_def)
  assume h: "engine_contract E \<and> s = run E W evs"
  then have "synced E s" using synced_run [of E W evs] by simp
  then have before: "moves s = chess_history E (gameRef s)" by (simp add: synced_def)
  obtain req where "tryMove_move E (gameRef s) from to = chess_move E (gameRef s) req"
    using tryMove_move_request [of E "gameRef s" "from" "to"] by auto
  with assms have "chess_move E (gameRef s) req = (Inr (Some m), g')" by simp
  with h have "length (chess_history E g') = length (chess_history E (gameRef s)) + 1"
    using contract_applied [of E "gameRef s" req m g'] by simp
  with before show "length (moves (snd (tryMove E s from to))) = length (moves s) + 1"
    by (simp add: eq)
qed

theorem tryMove_accepted_witness:
  "fst (tryMove_move pawnsChess (gameRef (run pawnsChess noClipboard [PieceDrop (Fe, R2) (Fe, R3)])) (Fe, R7) (Fe, R6))
     = Inr (Some \<lparr>move_color = BLACK, move_from = (Fe, R7), move_to = (Fe, R6), move_piece = PAWN,
                  move_promotion = None, san = ''e6''\<rparr>) \<and>
   engine_contract pawnsChess \<and>
   fst (tryMove pawnsChess (run pawnsChess noClipboard [PieceDrop (Fe, R2) (Fe, R3)]) (Fe, R7) (Fe, R6)) = Inr True \<and>
   lastMove (snd (tryMove pawnsChess (run pawnsChess noClipboard [PieceDrop (Fe, R2) (Fe, R3)]) (Fe, R7) (Fe, R6)))
     = Some ((Fe, R7), (Fe, R6)) \<and>
   length (moves (run pawnsChess noClipboard [PieceDrop (Fe, R2) (Fe, R3)])) = 1 \<and>
   length (moves (snd (tryMove pawnsChess (run pawnsChess noClipboard [PieceDrop (Fe, R2) (Fe, R3)]) (Fe, R7) (Fe, R6)))) = 2"
proof -
  let ?s = "run pawnsChess noClipboard [PieceDrop (Fe, R2) (Fe, R3)]"
  let ?m = "\<lparr>move_color = BLACK, move_from = (Fe, R7), move_to = (Fe, R6), move_piece = PAWN,
             move_promotion = None, san = ''e6''\<rparr>"
  let ?g = "snd (tryMove_move pawnsChess (gameRef ?s) (Fe, R7) (Fe, R6))"
  have s: "?s = snd (tryMove pawnsChess (initialState pawnsChess) (Fe, R2) (Fe, R3))"
    by (simp add: run_def onPieceDrop_def)
  have one: "length (moves ?s) = 1"
    unfolding s
    by (simp add: pawns_eval initialState_def tryMove_def tryMove_move_def isPromotionMove_def
        syncFromGame_def clearSelection_def)
  have applied: "fst (tryMove_move pawnsChess (gameRef ?s) (Fe, R7) (Fe, R6)) = Inr (Some ?m)"
    unfolding s
    by (simp add: pawns_eval initialState_def tryMove_def tryMove_move_def isPromotionMove_def
        syncFromGame_def clearSelection_def)
  then have acc: "tryMove_move pawnsChess (gameRef ?s) (Fe, R7) (Fe, R6) = (Inr (Some ?m), ?g)"
    by (simp add: prod_eq_iff)
  have after: "tryMove pawnsChess ?s (Fe, R7) (Fe, R6) =
           (Inr True, ?s\<lparr>gameRef := ?g, lastMove := Some ((Fe, R7), (Fe, R6)), selected := None,
                     legalTargets := [], fen := chess_fen pawnsChess ?g, pgn := chess_pgn pawnsChess ?g,
                     moves := chess_history pawnsChess ?g, status := computeStatus pawnsChess ?g\<rparr>)"
    and longer: "engine_contract pawnsChess \<and> ?s = run pawnsChess noClipboard [PieceDrop (Fe, R2) (Fe, R3)] \<longrightarrow>
         length (moves (snd (tryMove pawnsChess ?s (Fe, R7) (Fe, R6)))) = length (moves ?s) + 1"
    using tryMove_accepted [OF acc, of noClipboard "[PieceDrop (Fe, R2) (Fe, R3)]"] by blast+
  from longer pawns_contract one
  have two: "length (moves (snd (tryMove pawnsChess ?s (Fe, R7) (Fe, R6)))) = 2"
    by simp
  have "fst (tryMove pawnsChess ?s (Fe, R7) (Fe, R6)) = Inr True"
    and "lastMove (snd (tryMove pawnsChess ?s (Fe, R7) (Fe, R6))) = Some ((Fe, R7), (Fe, R6))"
    by (simp_all add: after)
  with applied pawns_contract one two show ?thesis by blast
qed

section \<open>Undo\<close>

text \<open>
  Claim C7. When the engine reports that nothing was undone, \<open>onUndo\<close> writes no state
  cell: fen, pgn, move list, status, selection, legal targets and last move are what they
  were, and the state differs at most in the engine object as the engine's call left it
  (not at all when the engine left it as it was).
  When the engine reports an undone move and leaves the state \<open>g'\<close>, \<open>onUndo\<close> empties
  last move, selection and legal targets and sets fen, pgn, move list and status to what
  the engine reports in \<open>g'\<close>.
\<close>

theorem onUndo_cases:
  "(fst (chess_undo E (gameRef s)) = None \<longrightarrow>
      onUndo E s = s\<lparr>gameRef := snd (chess_undo E (gameRef s))\<rparr> \<and>
      fen (onUndo E s) = fen s \<and> pgn (onUndo E s) = pgn s \<and> moves (onUndo E s) = moves s \<and>
      status (onUndo E s) = status s \<and> selected (onUndo E s) = selected s \<and>
      legalTargets (onUndo E s) = legalTargets s \<and> lastMove (onUndo E s) = lastMove s \<and>
      (snd (chess_undo E (gameRef s)) = gameRef s \<longrightarrow> onUndo E s = s)) \<and>
   (\<forall>undone g'. chess_undo E (gameRef s) = (Some undone, g') \<longrightarrow>
      onUndo E s =
        s\<lparr>gameRef := g', lastMove := None, selected := None, legalTargets := [],
          fen := chess_fen E g', pgn := chess_pgn E g', moves := chess_history E g',
          status := computeStatus E g'\<rparr>)"
  by (cases "chess_undo E (gameRef s)")
     (auto simp: onUndo_def syncFromGame_def clearSelection_def)

theorem onUndo_cases_witness:
  "fst (chess_undo pawnsChess (gameRef (initialState pawnsChess))) = None \<and>
   moves (initialState pawnsChess) = [] \<and>
   onUndo pawnsChess ((initialState pawnsChess)\<lparr>selected := Some (Fe, R2), legalTargets := [(Fe, R3)]\<rparr>)
     = (initialState pawnsChess)\<lparr>selected := Some (Fe, R2), legalTargets := [(Fe, R3)]\<rparr> \<and>
   fst (chess_undo pawnsChess (gameRef (run pawnsChess noClipboard [PieceDrop (Fe, R2) (Fe, R3)])))
     = Some \<lparr>move_color = WHITE, move_from = (Fe, R2), move_to = (Fe, R3), move_piece = PAWN,
             move_promotion = None, san = ''e3''\<rparr> \<and>
   lastMove (run pawnsChess noClipboard [PieceDrop (Fe, R2) (Fe, R3)]) = Some ((Fe, R2), (Fe, R3)) \<and>
   lastMove (onUndo pawnsChess (run pawnsChess noClipboard [PieceDrop (Fe, R2) (Fe, R3)])) = None \<and>
   moves (onUndo pawnsChess (run pawnsChess noClipboard [PieceDrop (Fe, R2) (Fe, R3)])) = [] \<and>
   status (onUndo pawnsChess (run pawnsChess noClipboard [PieceDrop (Fe, R2) (Fe, R3)])) = ''White to move''"
  using
    onUndo_cases [of pawnsChess "(initialState pawnsChess)\<lparr>selected := Some (Fe, R2), legalTargets := [(Fe, R3)]\<rparr>"]
    onUndo_cases [of pawnsChess "run pawnsChess noClipboard [PieceDrop (Fe, R2) (Fe, R3)]"]
  by (simp add: pawns_eval initialState_def run_def onPieceDrop_def tryMove_def tryMove_move_def
      isPromotionMove_def syncFromGame_def clearSelection_def computeStatus_def)

section \<open>Legal targets only with a selection\<close>

lemma tns_initialState: "targets_need_selection (initialState E)"
  by (simp add: targets_need_selection_def initialState_def)

lemma tns_clearSelection: "targets_need_selection (clearSelection s)"
  by (simp add: targets_need_selection_def clearSelection_def)

lemma tns_selectSquare: "targets_need_selection (selectSquare E s sq)"
  by (simp add: targets_need_selection_def selectSquare_def clearSelection_def Let_def
      split: option.splits)

lemma tns_tryMove:
  "targets_need_selection s \<Longrightarrow> targets_need_selection (snd (tryMove E s from to))"
  by (cases "tryMove_move E (gameRef s) from to")
     (auto simp: targets_need_selection_def tryMove_def syncFromGame_def clearSelection_def
        split: sum.splits option.splits)

text \<open>A click that ends with a thrown error leaves the cells as they were, so here the
  invariant is kept, not established.\<close>

lemma tns_onSquareClick:
  assumes "targets_need_selection s"
  shows "targets_need_selection (snd (onSquareClick E s sq))"
proof (cases "selected s")
  case None
  then show ?thesis by (simp add: onSquareClick_def tns_selectSquare)
next
  case (Some sel)
  obtain r s' where t: "tryMove E s sel sq = (r, s')" by (cases "tryMove E s sel sq")
  have "targets_need_selection s'" using tns_tryMove [OF assms, of E sel sq] t by simp
  then show ?thesis using Some t
    by (cases r) (simp_all add: onSquareClick_def tns_selectSquare)
qed

lemma tns_onNewGame: "targets_need_selection (onNewGame E s)"
  by (simp add: targets_need_selection_def onNewGame_def syncFromGame_def clearSelection_def)

lemma tns_onUndo: "targets_need_selection s \<Longrightarrow> targets_need_selection (onUndo E s)"
  by (cases "chess_undo E (gameRef s)")
     (auto simp: targets_need_selection_def onUndo_def syncFromGame_def clearSelection_def
        split: option.splits)

lemma tns_handle: "targets_need_selection s \<Longrightarrow> targets_need_selection (handle E W s e)"
  by (cases e)
     (simp_all add: tns_onSquareClick tns_tryMove tns_selectSquare tns_onNewGame tns_onUndo
        onPieceDrop_def onPieceDragBegin_def onCopyPGN_def)

lemma tns_run: "targets_need_selection (run E W evs)"
  by (induction evs rule: rev_induct) (simp_all add: run_Nil run_snoc tns_initialState tns_handle)

text \<open>
  Claim C8. With no selection there are no legal targets: this holds at the first render,
  holds after \<open>selectSquare\<close>, \<open>clearSelection\<close> and a new game from any state, is
  kept by \<open>tryMove\<close>, by undo and by every event, and so holds in every state the
  component reaches from the first render.
\<close>

theorem targets_need_selection_invariant:
  "targets_need_selection (initialState E) \<and>
   targets_need_selection (selectSquare E s sq) \<and>
   targets_need_selection (clearSelection s) \<and>
   (targets_need_selection s \<longrightarrow> targets_need_selection (snd (tryMove E s from to))) \<and>
   targets_need_selection (onNewGame E s) \<and>
   (targets_need_selection s \<longrightarrow> targets_need_selection (onUndo E s)) \<and>
   (targets_need_selection s \<longrightarrow> targets_need_selection (handle E W s e)) \<and>
   targets_need_selection (run E W evs) \<and>
   (selected (run E W evs) = None \<longrightarrow> legalTargets (run E W evs) = [])"
  using tns_run [of E W evs]
  by (simp add: tns_initialState tns_selectSquare tns_clearSelection tns_tryMove tns_onNewGame
      tns_onUndo tns_handle)
     (simp add: targets_need_selection_def)

theorem targets_need_selection_invariant_witness:
  "selected (run pawnsChess noClipboard [SquareClick (Fe, R2), SquareClick (Fe, R4)]) = None \<and>
   legalTargets (run pawnsChess noClipboard [SquareClick (Fe, R2), SquareClick (Fe, R4)]) = [] \<and>
   selected (run pawnsChess noClipboard [SquareClick (Fe, R2)]) = Some (Fe, R2) \<and>
   legalTargets (run pawnsChess noClipboard [SquareClick (Fe, R2)]) = [(Fe, R3)] \<and>
   targets_need_selection (run pawnsChess noClipboard [SquareClick (Fe, R2)]) \<and>
   targets_need_selection (snd (tryMove pawnsChess (run pawnsChess noClipboard [SquareClick (Fe, R2)]) (Fe, R2) (Fe, R3))) \<and>
   targets_need_selection (onUndo pawnsChess (run pawnsChess noClipboard [SquareClick (Fe, R2)]))"
  using
    targets_need_selection_invariant [of pawnsChess "run pawnsChess noClipboard [SquareClick (Fe, R2)]" "(Fe, R4)" "(Fe, R2)" "(Fe, R3)" noClipboard Undo "[SquareClick (Fe, R2), SquareClick (Fe, R4)]"]
    targets_need_selection_invariant [of pawnsChess "run pawnsChess noClipboard [SquareClick (Fe, R2)]" "(Fe, R4)" "(Fe, R2)" "(Fe, R3)" noClipboard Undo "[SquareClick (Fe, R2)]"]
  by (simp add: pawns_eval initialState_def run_def onSquareClick_def selectSquare_def
      tryMove_def tryMove_move_def isPromotionMove_def clearSelection_def)

section \<open>Copying the notation\<close>

text \<open>
  Claim C9. When the clipboard rejects the write, \<open>onCopyPGN\<close> leaves the state as it
  was: the click changes no cell, a run is the same with or without it, and the toolbar and
  the move rows rendered from the state are the same. The rejection reaches no state cell,
  so nothing the component renders shows it.
\<close>

theorem onCopyPGN_rejected:
  "writeText (pgn s) = Rejected \<longrightarrow>
     snd (onCopyPGN writeText s) = s \<and>
     handle E writeText s CopyPGN = s \<and>
     run E writeText (evs @ [CopyPGN]) = run E writeText evs \<and>
     renderToolbar E (handle E writeText s CopyPGN) = renderToolbar E s \<and>
     historyPairs (moves (handle E writeText s CopyPGN)) = historyPairs (moves s)"
  by (simp add: onCopyPGN_def run_def)

theorem onCopyPGN_rejected_witness:
  "noClipboard (pgn (run pawnsChess noClipboard [PieceDrop (Fe, R2) (Fe, R3)])) = Rejected \<and>
   handle pawnsChess noClipboard (run pawnsChess noClipboard [PieceDrop (Fe, R2) (Fe, R3)]) CopyPGN
     = run pawnsChess noClipboard [PieceDrop (Fe, R2) (Fe, R3)] \<and>
   run pawnsChess noClipboard ([PieceDrop (Fe, R2) (Fe, R3)] @ [CopyPGN])
     = run pawnsChess noClipboard [PieceDrop (Fe, R2) (Fe, R3)]"
  using onCopyPGN_rejected [of noClipboard "run pawnsChess noClipboard [PieceDrop (Fe, R2) (Fe, R3)]" pawnsChess "[PieceDrop (Fe, R2) (Fe, R3)]"]
  by (simp add: noClipboard_def)

section \<open>The toolbar\<close>

text \<open>
  Claim C10. The toolbar renders three buttons: New game, never disabled, and Undo and
  Copy PGN, both disabled exactly when \<open>canUndo\<close> is false, which \<open>ChessGame\<close> sets to
  whether its move list is non-empty. The \<open>isGameOver\<close> prop changes no button.
\<close>

theorem Toolbar_buttons:
  "renderToolbar E s =
     [\<lparr>label = ''New game'', onClick = NewGame, disabled = False\<rparr>,
      \<lparr>label = ''Undo'', onClick = Undo, disabled = (moves s = [])\<rparr>,
      \<lparr>label = ''Copy PGN'', onClick = CopyPGN, disabled = (moves s = [])\<rparr>] \<and>
   canUndo (toolbarProps E s) = (length (moves s) > 0) \<and>
   map disabled (Toolbar props) = [False, \<not> canUndo props, \<not> canUndo props] \<and>
   Toolbar (props\<lparr>isGameOver_prop := b\<rparr>) = Toolbar props"
  by (simp add: renderToolbar_def toolbarProps_def Toolbar_def)

theorem Toolbar_buttons_witness:
  "map disabled (renderToolbar pawnsChess (initialState pawnsChess)) = [False, True, True] \<and>
   map disabled (renderToolbar pawnsChess (run pawnsChess noClipboard [PieceDrop (Fe, R2) (Fe, R3)]))
     = [False, False, False] \<and>
   map disabled (renderToolbar (pawnsChess\<lparr>isGameOver := (\<lambda>g. True)\<rparr>) (initialState (pawnsChess\<lparr>isGameOver := (\<lambda>g. True)\<rparr>)))
     = [False, True, True]"
  using
    Toolbar_buttons [of pawnsChess "initialState pawnsChess"]
    Toolbar_buttons [of pawnsChess "run pawnsChess noClipboard [PieceDrop (Fe, R2) (Fe, R3)]"]
    Toolbar_buttons [of "pawnsChess\<lparr>isGameOver := (\<lambda>g. True)\<rparr>" "initialState (pawnsChess\<lparr>isGameOver := (\<lambda>g. True)\<rparr>)"]
  by (simp add: pawns_eval initialState_def run_def onPieceDrop_def tryMove_def tryMove_move_def
      isPromotionMove_def syncFromGame_def clearSelection_def)


end
